theory Spec2Isabelle
  imports Complex_Main
begin

text \<open>
  A shallow embedding of the numerical core of OpenNN: the perceptron layer
  (\<^verbatim>\<open>perceptron_layer.cpp\<close>), the tensor utilities (\<^verbatim>\<open>tensor_utilities.cpp\<close>) and the
  inverse Hessian update of the quasi-Newton method (\<^verbatim>\<open>quasi_newton_method.h\<close>).
  Functions that only move coefficients are polymorphic in the coefficient type.  The
  perceptron layer computes in the arithmetic of that type, which rounds: its products,
  sums and inner products are operations handed to the model, so every theorem about
  them holds for the arithmetic the library is compiled with.  The norms and the
  inverse Hessian update are over the real numbers; where the special values of floating
  point decide the result, they are part of the model.  The first half of
  the theory holds the definitions, the second half the proofs.
\<close>

section \<open>Errors and control flow\<close>

text \<open>
  OpenNN reports a violated contract by throwing \<^verbatim>\<open>logic_error\<close>; that is
  \<open>LogicError\<close>.  Eigen itself never throws: reading or writing outside a buffer, or
  combining tensors whose dimensions do not fit, has no defined result.  Every such
  place is a branch of the model that returns \<open>Undefined\<close>.
\<close>

datatype error = LogicError | Undefined

definition bindE :: "error + 'a \<Rightarrow> ('a \<Rightarrow> error + 'b) \<Rightarrow> error + 'b" where
  "bindE m f = (case m of Inl e \<Rightarrow> Inl e | Inr x \<Rightarrow> f x)"

text \<open>A counting \<^verbatim>\<open>for\<close> loop whose body may fail; the first failure ends it.\<close>

fun for_loop :: "nat list \<Rightarrow> (nat \<Rightarrow> 's \<Rightarrow> error + 's) \<Rightarrow> 's \<Rightarrow> error + 's" where
  "for_loop [] body s = Inr s"
| "for_loop (i # is) body s =
     (case body i s of Inl e \<Rightarrow> Inl e | Inr s' \<Rightarrow> for_loop is body s')"

section \<open>Eigen tensors\<close>

text \<open>
  \<^verbatim>\<open>Tensor<type, 1>\<close> is a list.  \<^verbatim>\<open>Tensor<type, 2>\<close> is its two dimensions and its
  buffer \<^verbatim>\<open>data()\<close>, stored column by column (the first index runs fastest), as
  \<^verbatim>\<open>fill_n(combinations.data() + i*batch_samples_number, ...)\<close> and \<^verbatim>\<open>fill_submatrix\<close>
  rely on.  \<open>Index\<close> values are sizes and offsets and are natural numbers here.
\<close>

record 'a tensor2 =
  d0 :: nat
  d1 :: nat
  buf :: "'a list"

record 'a tensor3 =
  e0 :: nat
  e1 :: nat
  e2 :: nat
  buf3 :: "'a list"

definition size2 :: "'a tensor2 \<Rightarrow> nat" where
  "size2 t = d0 t * d1 t"

text \<open>The buffer of a tensor always holds exactly \<^verbatim>\<open>size()\<close> coefficients.\<close>

definition wf2 :: "'a tensor2 \<Rightarrow> bool" where
  "wf2 t \<longleftrightarrow> length (buf t) = d0 t * d1 t"


text \<open>\<^verbatim>\<open>t(i)\<close>: the coefficient at a linear index; \<^verbatim>\<open>t(i, j)\<close>: row \<open>i\<close>, column \<open>j\<close>.\<close>

definition at_lin :: "'a tensor2 \<Rightarrow> nat \<Rightarrow> 'a" where
  "at_lin t i = buf t ! i"

definition at2 :: "'a tensor2 \<Rightarrow> nat \<Rightarrow> nat \<Rightarrow> 'a" where
  "at2 t i j = buf t ! (i + j * d0 t)"

text \<open>\<^verbatim>\<open>t(i, j, k)\<close> of a rank three tensor, the first index again running fastest.\<close>

definition at3 :: "'a tensor3 \<Rightarrow> nat \<Rightarrow> nat \<Rightarrow> nat \<Rightarrow> 'a" where
  "at3 t i j k = buf3 t ! (i + e0 t * (j + e1 t * k))"

text \<open>The tensor of the given dimensions whose coefficient \<open>(i, j)\<close> is \<open>f i j\<close>.\<close>

definition tabulate2 :: "nat \<Rightarrow> nat \<Rightarrow> (nat \<Rightarrow> nat \<Rightarrow> 'a) \<Rightarrow> 'a tensor2" where
  "tabulate2 r c f = \<lparr>d0 = r, d1 = c, buf = map (\<lambda>n. f (n mod r) (n div r)) [0..<r * c]\<rparr>"

text \<open>
  \<^verbatim>\<open>resize\<close> keeps the buffer when the number of coefficients stays the same and
  takes a fresh, uninitialised one otherwise; \<open>mem\<close> is what that fresh memory holds.
\<close>

definition resize2 :: "(nat \<Rightarrow> 'a) \<Rightarrow> nat \<Rightarrow> nat \<Rightarrow> 'a tensor2 \<Rightarrow> 'a tensor2" where
  "resize2 mem r c t =
     \<lparr>d0 = r, d1 = c,
      buf = (if r * c = size2 t then buf t else map mem [0..<r * c])\<rparr>"

text \<open>
  \<^verbatim>\<open>memcpy(dst + doff, src + soff, n*sizeof(type))\<close> and
  \<^verbatim>\<open>fill_n(dst + off, n, v)\<close> on buffers.
\<close>

definition memcpy :: "'a list \<Rightarrow> nat \<Rightarrow> 'a list \<Rightarrow> nat \<Rightarrow> nat \<Rightarrow> error + 'a list" where
  "memcpy dst doff src soff n =
     (if soff + n \<le> length src \<and> doff + n \<le> length dst
      then Inr (take doff dst @ take n (drop soff src) @ drop (doff + n) dst)
      else Inl Undefined)"

definition fill_n :: "'a list \<Rightarrow> nat \<Rightarrow> nat \<Rightarrow> 'a \<Rightarrow> error + 'a list" where
  "fill_n dst off n v =
     (if off + n \<le> length dst
      then Inr (take off dst @ replicate n v @ drop (off + n) dst)
      else Inl Undefined)"

section \<open>The perceptron layer\<close>

datatype ActivationFunction =
  Threshold | SymmetricThreshold | Logistic | HyperbolicTangent | Linear | RectifiedLinear
| ExponentialLinear | ScaledExponentialLinear | SoftPlus | SoftSign | HardSigmoid

text \<open>
  Of the layer kinds only \<^verbatim>\<open>Type::Perceptron\<close> and \<^verbatim>\<open>Type::Probabilistic\<close> are told
  apart by this class; the others take the \<^verbatim>\<open>default\<close> branch.
\<close>

datatype Type = Perceptron | Probabilistic | OtherType

text \<open>
  Modelled from the spec: the class is declared in \<^verbatim>\<open>perceptron_layer.h\<close>, which is not
  among the sources.  Its members are those the methods read and write: the biases, a
  \<open>1 \<times> neurons\<close> matrix, and the synaptic weights, an \<open>inputs \<times> neurons\<close> matrix.
\<close>

record 'a PerceptronLayer =
  layer_name :: string
  layer_type :: Type
  display :: bool
  activation_function :: ActivationFunction
  biases :: "'a tensor2"
  synaptic_weights :: "'a tensor2"

definition wf_layer :: "'a PerceptronLayer \<Rightarrow> bool" where
  "wf_layer L \<longleftrightarrow> wf2 (biases L) \<and> wf2 (synaptic_weights L)"

definition get_inputs_number :: "'a PerceptronLayer \<Rightarrow> nat" where
  "get_inputs_number L = d0 (synaptic_weights L)"

definition get_neurons_number :: "'a PerceptronLayer \<Rightarrow> nat" where
  "get_neurons_number L = size2 (biases L)"

definition get_biases_number :: "'a PerceptronLayer \<Rightarrow> nat" where
  "get_biases_number L = size2 (biases L)"

definition get_synaptic_weights_number :: "'a PerceptronLayer \<Rightarrow> nat" where
  "get_synaptic_weights_number L = size2 (synaptic_weights L)"

definition get_parameters_number :: "'a PerceptronLayer \<Rightarrow> nat" where
  "get_parameters_number L = size2 (biases L) + size2 (synaptic_weights L)"

text \<open>
  \<^verbatim>\<open>get_parameters\<close>: a fresh vector, then one loop over the biases and one over the
  synaptic weights, each writing one coefficient per round.
\<close>

definition get_parameters :: "(nat \<Rightarrow> 'a) \<Rightarrow> 'a PerceptronLayer \<Rightarrow> 'a list" where
  "get_parameters mem L =
     (let parameters = map mem [0..<size2 (synaptic_weights L) + size2 (biases L)];
          parameters = fold (\<lambda>i p. p[i := at_lin (biases L) i])
                            [0..<size2 (biases L)] parameters;
          parameters = fold (\<lambda>i p. p[size2 (biases L) + i := at_lin (synaptic_weights L) i])
                            [0..<size2 (synaptic_weights L)] parameters
      in parameters)"

definition set_default :: "'a PerceptronLayer \<Rightarrow> 'a PerceptronLayer" where
  "set_default L = L\<lparr>layer_name := ''perceptron_layer'', display := True, layer_type := Perceptron\<rparr>"

text \<open>
  \<^verbatim>\<open>set_parameters_random\<close>: \<open>rnd k\<close> is the value of the \<open>k\<close>-th evaluation of
  \<^verbatim>\<open>rand()/(RAND_MAX+1.0)\<close>.
\<close>

definition set_parameters_random :: "(nat \<Rightarrow> 'a::field) \<Rightarrow> 'a PerceptronLayer \<Rightarrow> 'a PerceptronLayer" where
  "set_parameters_random rnd L =
     (let minimum = - (2 / 10); maximum = 2 / 10;
          b = fold (\<lambda>i p. p[i := minimum + (maximum - minimum) * rnd i])
                   [0..<size2 (biases L)] (buf (biases L));
          w = fold (\<lambda>i p. p[i := minimum + (maximum - minimum) * rnd (size2 (biases L) + i)])
                   [0..<size2 (synaptic_weights L)] (buf (synaptic_weights L))
      in L\<lparr>biases := (biases L)\<lparr>buf := b\<rparr>, synaptic_weights := (synaptic_weights L)\<lparr>buf := w\<rparr>\<rparr>)"

text \<open>
  \<^verbatim>\<open>set(new_inputs_number, new_neurons_number, new_activation_function)\<close>, here
  \<open>set_layer\<close> because \<open>set\<close> is the set of the elements of a list.
\<close>

definition set_layer ::
  "(nat \<Rightarrow> 'a::field) \<Rightarrow> (nat \<Rightarrow> 'a) \<Rightarrow> nat \<Rightarrow> nat \<Rightarrow> ActivationFunction \<Rightarrow> 'a PerceptronLayer \<Rightarrow> 'a PerceptronLayer" where
  "set_layer mem rnd new_inputs_number new_neurons_number new_activation_function L =
     (let L = L\<lparr>biases := resize2 mem 1 new_neurons_number (biases L)\<rparr>;
          L = L\<lparr>synaptic_weights := resize2 mem new_inputs_number new_neurons_number (synaptic_weights L)\<rparr>;
          L = set_parameters_random rnd L;
          L = L\<lparr>activation_function := new_activation_function\<rparr>
      in set_default L)"

definition set_inputs_number :: "(nat \<Rightarrow> 'a) \<Rightarrow> nat \<Rightarrow> 'a PerceptronLayer \<Rightarrow> 'a PerceptronLayer" where
  "set_inputs_number mem new_inputs_number L =
     (let neurons_number = get_neurons_number L;
          L = L\<lparr>biases := resize2 mem 1 neurons_number (biases L)\<rparr>
      in L\<lparr>synaptic_weights := resize2 mem new_inputs_number neurons_number (synaptic_weights L)\<rparr>)"

definition set_neurons_number :: "(nat \<Rightarrow> 'a) \<Rightarrow> nat \<Rightarrow> 'a PerceptronLayer \<Rightarrow> 'a PerceptronLayer" where
  "set_neurons_number mem new_neurons_number L =
     (let inputs_number = get_inputs_number L;
          L = L\<lparr>biases := resize2 mem 1 new_neurons_number (biases L)\<rparr>
      in L\<lparr>synaptic_weights := resize2 mem inputs_number new_neurons_number (synaptic_weights L)\<rparr>)"

text \<open>\<^verbatim>\<open>set_parameters(new_parameters, index)\<close>: two \<^verbatim>\<open>memcpy\<close> calls.\<close>

definition set_parameters :: "'a list \<Rightarrow> nat \<Rightarrow> 'a PerceptronLayer \<Rightarrow> error + 'a PerceptronLayer" where
  "set_parameters new_parameters index L =
     (let biases_number = get_biases_number L;
          synaptic_weights_number = get_synaptic_weights_number L
      in bindE (memcpy (buf (biases L)) 0 new_parameters index biases_number) (\<lambda>b.
         bindE (memcpy (buf (synaptic_weights L)) 0 new_parameters (biases_number + index)
                  synaptic_weights_number) (\<lambda>w.
         Inr (L\<lparr>biases := (biases L)\<lparr>buf := b\<rparr>,
                synaptic_weights := (synaptic_weights L)\<lparr>buf := w\<rparr>\<rparr>))))"

section \<open>Tensor expressions\<close>

text \<open>
  Modelled from the spec: the macros \<^verbatim>\<open>A_B\<close>, \<^verbatim>\<open>AT_B\<close> and \<^verbatim>\<open>A_BT\<close> come from
  \<^verbatim>\<open>config.h\<close>, which is not among the sources.  They are the index pairs that make
  \<^verbatim>\<open>contract\<close> the products \<open>A \<cdot> B\<close>, \<open>A\<^sup>T \<cdot> B\<close> and \<open>A \<cdot> B\<^sup>T\<close>
  of the specification: the dimension of the left and of the right operand that is
  summed over.
\<close>

definition A_B :: "nat \<times> nat" where
  "A_B = (1, 0)"



definition dimension :: "'a tensor2 \<Rightarrow> nat \<Rightarrow> nat" where
  "dimension t k = (if k = 0 then d0 t else d1 t)"

text \<open>
  The coefficient whose index along dimension \<open>p\<close> is \<open>c\<close> and whose index along the
  other dimension is \<open>f\<close>.
\<close>

definition coeff :: "'a tensor2 \<Rightarrow> nat \<Rightarrow> nat \<Rightarrow> nat \<Rightarrow> 'a" where
  "coeff t p c f = (if p = 0 then at2 t c f else at2 t f c)"

text \<open>
  The arithmetic of the coefficient type \<^verbatim>\<open>type\<close>, a floating point type declared in
  \<^verbatim>\<open>config.h\<close>, which is not among the sources.  Its operations round, and Eigen fixes
  neither the order in which a reduction or a contraction accumulates nor whether it
  fuses a product with a sum.  So the operations are handed to the model:
  the product and the sum of two coefficients, the sum of a sequence of coefficients as
  the reduction \<^verbatim>\<open>sum\<close> evaluates it, and the inner product of two sequences as a
  contraction evaluates it, for two matrices and for a vector with a matrix.  A
  reduction and a contraction get the position of the coefficient they compute.
\<close>

record 'a arithmetic =
  coef_times :: "'a \<Rightarrow> 'a \<Rightarrow> 'a"
  coef_plus :: "'a \<Rightarrow> 'a \<Rightarrow> 'a"
  reduce_sum :: "nat \<Rightarrow> 'a list \<Rightarrow> 'a"
  inner_product :: "nat \<Rightarrow> nat \<Rightarrow> 'a list \<Rightarrow> 'a list \<Rightarrow> 'a"
  inner_product1 :: "nat \<Rightarrow> 'a list \<Rightarrow> 'a list \<Rightarrow> 'a"

text \<open>
  \<^verbatim>\<open>a.contract(b, pair)\<close> for two matrices, and for a vector with a matrix.  The
  contracted dimensions must agree.  Coefficient \<open>(i, j)\<close> of the result is the inner
  product of the coefficients of \<open>a\<close> with free index \<open>i\<close> and of the coefficients of
  \<open>b\<close> with free index \<open>j\<close>.
\<close>

definition contract ::
  "'a arithmetic \<Rightarrow> 'a tensor2 \<Rightarrow> 'a tensor2 \<Rightarrow> nat \<times> nat \<Rightarrow> error + 'a tensor2" where
  "contract A a b pair =
     (case pair of (pa, pb) \<Rightarrow>
        if dimension a pa \<noteq> dimension b pb then Inl Undefined
        else Inr (tabulate2 (dimension a (1 - pa)) (dimension b (1 - pb))
                    (\<lambda>i j. inner_product A i j
                             (map (\<lambda>k. coeff a pa k i) [0..<dimension a pa])
                             (map (\<lambda>k. coeff b pb k j) [0..<dimension a pa]))))"



text \<open>
  \<^verbatim>\<open>dst.device(...) = src\<close> and \<^verbatim>\<open>dst.device(...) += src\<close> evaluate into the buffer
  that is there; nothing is resized.
\<close>

definition assign_device :: "'a tensor2 \<Rightarrow> 'a tensor2 \<Rightarrow> error + 'a tensor2" where
  "assign_device dst src =
     (if d0 dst = d0 src \<and> d1 dst = d1 src then Inr src else Inl Undefined)"

definition assign_device1 :: "'a list \<Rightarrow> 'a list \<Rightarrow> error + 'a list" where
  "assign_device1 dst src = (if length dst = length src then Inr src else Inl Undefined)"

definition add_assign_device ::
  "'a arithmetic \<Rightarrow> 'a tensor2 \<Rightarrow> 'a tensor2 \<Rightarrow> error + 'a tensor2" where
  "add_assign_device A dst src =
     (if d0 dst = d0 src \<and> d1 dst = d1 src
      then Inr (dst\<lparr>buf := map2 (coef_plus A) (buf dst) (buf src)\<rparr>)
      else Inl Undefined)"



text \<open>\<^verbatim>\<open>TensorMap<Tensor<type, 2>>(data + off, r, c)\<close>: a matrix view of part of a buffer.\<close>

definition tensor_map :: "'a list \<Rightarrow> nat \<Rightarrow> nat \<Rightarrow> nat \<Rightarrow> error + 'a tensor2" where
  "tensor_map data off r c =
     (if off + r * c \<le> length data
      then Inr \<lparr>d0 = r, d1 = c, buf = take (r * c) (drop off data)\<rparr>
      else Inl Undefined)"




section \<open>Checks of tensor_utilities\<close>

definition check_size :: "'a list \<Rightarrow> nat \<Rightarrow> error + unit" where
  "check_size vector sz = (if length vector \<noteq> sz then Inl LogicError else Inr ())"

definition check_dimensions :: "'a tensor2 \<Rightarrow> nat \<Rightarrow> nat \<Rightarrow> error + unit" where
  "check_dimensions matrix rows_number columns_number =
     (if d0 matrix \<noteq> rows_number then Inl LogicError
      else if d1 matrix \<noteq> columns_number then Inl LogicError
      else Inr ())"

definition check_columns_number :: "'a tensor2 \<Rightarrow> nat \<Rightarrow> error + unit" where
  "check_columns_number matrix columns_number =
     (if d1 matrix \<noteq> columns_number then Inl LogicError else Inr ())"

section \<open>Forward propagation\<close>

text \<open>
  Modelled from the spec: the propagation structures are declared in
  \<^verbatim>\<open>perceptron_layer.h\<close>, which is not among the sources.  Their fields are those the
  methods read and write, with the ranks the specification gives them: matrices of
  \<open>batch \<times> neurons\<close>, a vector of bias derivatives and an \<open>inputs \<times> neurons\<close> matrix
  of weight derivatives.
\<close>

record 'a PerceptronLayerForwardPropagation =
  combinations :: "'a tensor2"
  activations :: "'a tensor2"
  activations_derivatives :: "'a tensor2"

record 'a PerceptronLayerBackPropagation =
  batch_samples_number :: nat
  delta :: "'a tensor2"
  biases_derivatives :: "'a list"
  synaptic_weights_derivatives :: "'a tensor2"

text \<open>
  \<^verbatim>\<open>calculate_combinations\<close>.  \<open>debug\<close> says whether the library was compiled with
  \<^verbatim>\<open>OPENNN_DEBUG\<close>: the checks are inside \<^verbatim>\<open>#ifdef OPENNN_DEBUG\<close>.  The parameters
  \<open>biases_p\<close> and \<open>synaptic_weights_p\<close> hide the members of the layer, whereas
  \<^verbatim>\<open>get_biases_number()\<close> and the checks read the members.
\<close>

definition calculate_combinations ::
  "'a arithmetic \<Rightarrow> bool \<Rightarrow> 'a PerceptronLayer \<Rightarrow> 'a tensor2 \<Rightarrow> 'a tensor2 \<Rightarrow> 'a tensor2
     \<Rightarrow> 'a tensor2 \<Rightarrow> error + 'a tensor2" where
  "calculate_combinations A debug L inputs biases_p synaptic_weights_p combinations_p =
     bindE (if debug
            then bindE (check_columns_number inputs (get_inputs_number L)) (\<lambda>_.
                 bindE (check_dimensions synaptic_weights_p (get_inputs_number L) (get_neurons_number L)) (\<lambda>_.
                 check_dimensions combinations_p (d0 inputs) (get_neurons_number L)))
            else Inr ()) (\<lambda>_.
     let batch_samples_number = d0 inputs;
         biases_number = get_biases_number L
     in bindE (for_loop [0..<biases_number]
                 (\<lambda>i c. if i < length (buf biases_p)
                        then fill_n c (i * batch_samples_number) batch_samples_number (at_lin biases_p i)
                        else Inl Undefined)
                 (buf combinations_p)) (\<lambda>c.
        bindE (contract A inputs synaptic_weights_p A_B) (\<lambda>product.
        add_assign_device A (combinations_p\<lparr>buf := c\<rparr>) product)))"

text \<open>
  The activation functions and their derivatives (\<^verbatim>\<open>linear_derivatives\<close>,
  \<^verbatim>\<open>logistic_derivatives\<close>, ...) belong to the base class \<^verbatim>\<open>Layer\<close>, which is not
  among the sources; \<open>fns\<close> stands for them.  Each takes the combinations and the two
  buffers and gives the new activations and derivatives.
\<close>

type_synonym 'a activation_functions =
  "ActivationFunction \<Rightarrow> 'a tensor2 \<Rightarrow> 'a tensor2 \<Rightarrow> 'a tensor2 \<Rightarrow> error + ('a tensor2 \<times> 'a tensor2)"

definition calculate_activations_derivatives ::
  "bool \<Rightarrow> 'a activation_functions \<Rightarrow> 'a PerceptronLayer \<Rightarrow> 'a tensor2 \<Rightarrow> 'a tensor2 \<Rightarrow> 'a tensor2
     \<Rightarrow> error + ('a tensor2 \<times> 'a tensor2)" where
  "calculate_activations_derivatives debug fns L combinations_p activations_p activations_derivatives_p =
     bindE (if debug
            then bindE (check_columns_number combinations_p (get_neurons_number L)) (\<lambda>_.
                 bindE (check_dimensions activations_p (d0 combinations_p) (get_neurons_number L)) (\<lambda>_.
                 check_dimensions activations_derivatives_p (d0 combinations_p) (get_neurons_number L)))
            else Inr ()) (\<lambda>_.
     fns (activation_function L) combinations_p activations_p activations_derivatives_p)"

definition forward_propagate ::
  "'a arithmetic \<Rightarrow> bool \<Rightarrow> 'a activation_functions \<Rightarrow> 'a tensor2
     \<Rightarrow> 'a PerceptronLayerForwardPropagation
     \<Rightarrow> 'a PerceptronLayer \<Rightarrow> error + 'a PerceptronLayerForwardPropagation" where
  "forward_propagate A debug fns inputs forward_propagation L =
     bindE (if debug then check_columns_number inputs (get_inputs_number L) else Inr ()) (\<lambda>_.
     bindE (calculate_combinations A debug L inputs (biases L) (synaptic_weights L)
              (combinations forward_propagation)) (\<lambda>c.
     bindE (calculate_activations_derivatives debug fns L c
              (activations forward_propagation) (activations_derivatives forward_propagation)) (\<lambda>(a, d).
     Inr (forward_propagation\<lparr>combinations := c, activations := a, activations_derivatives := d\<rparr>))))"

text \<open>
  The overload with \<^verbatim>\<open>potential_parameters\<close> reads the candidate vector through two
  \<^verbatim>\<open>TensorMap\<close> views.
\<close>

definition potential_biases :: "'a PerceptronLayer \<Rightarrow> 'a list \<Rightarrow> error + 'a tensor2" where
  "potential_biases L potential_parameters =
     tensor_map potential_parameters 0 (get_neurons_number L) 1"

definition potential_synaptic_weights :: "'a PerceptronLayer \<Rightarrow> 'a list \<Rightarrow> error + 'a tensor2" where
  "potential_synaptic_weights L potential_parameters =
     tensor_map potential_parameters (get_neurons_number L) (get_inputs_number L) (get_neurons_number L)"

definition forward_propagate_potential ::
  "'a arithmetic \<Rightarrow> bool \<Rightarrow> 'a activation_functions \<Rightarrow> 'a tensor2 \<Rightarrow> 'a list
     \<Rightarrow> 'a PerceptronLayerForwardPropagation \<Rightarrow> 'a PerceptronLayer
     \<Rightarrow> error + 'a PerceptronLayerForwardPropagation" where
  "forward_propagate_potential A debug fns inputs potential_parameters forward_propagation L =
     bindE (if debug
            then bindE (check_columns_number inputs (get_inputs_number L)) (\<lambda>_.
                 check_size potential_parameters (get_parameters_number L))
            else Inr ()) (\<lambda>_.
     bindE (potential_biases L potential_parameters) (\<lambda>pb.
     bindE (potential_synaptic_weights L potential_parameters) (\<lambda>pw.
     bindE (calculate_combinations A debug L inputs pb pw (combinations forward_propagation)) (\<lambda>c.
     bindE (calculate_activations_derivatives debug fns L c
              (activations forward_propagation) (activations_derivatives forward_propagation)) (\<lambda>(a, d).
     Inr (forward_propagation\<lparr>combinations := c, activations := a, activations_derivatives := d\<rparr>))))))"

text \<open>
  \<^verbatim>\<open>calculate_activations\<close> and \<^verbatim>\<open>calculate_outputs\<close>.  The activation functions
  (\<^verbatim>\<open>linear\<close>, \<^verbatim>\<open>logistic\<close>, ...) belong to the base class \<^verbatim>\<open>Layer\<close>; \<open>acts\<close>
  stands for them.  The outputs start as a fresh tensor.
\<close>

type_synonym 'a activations =
  "ActivationFunction \<Rightarrow> 'a tensor2 \<Rightarrow> 'a tensor2 \<Rightarrow> error + 'a tensor2"



section \<open>Back propagation\<close>

text \<open>
  Modelled from the spec: the class \<^verbatim>\<open>ProbabilisticLayer\<close> and its propagation
  structures are not among the sources.  The record of the layer holds what the getters called here return; the
  derivatives of the multi-class layer are a rank three tensor.  Of the activation
  functions of that layer only \<^verbatim>\<open>Softmax\<close> is told apart.
\<close>

datatype ProbabilisticActivationFunction = Softmax | NotSoftmax










definition insert_gradient ::
  "'a PerceptronLayerBackPropagation \<Rightarrow> nat \<Rightarrow> 'a list \<Rightarrow> 'a PerceptronLayer \<Rightarrow> error + 'a list" where
  "insert_gradient back_propagation index gradient L =
     (let biases_number = get_biases_number L;
          synaptic_weights_number = get_synaptic_weights_number L
      in bindE (memcpy gradient index (biases_derivatives back_propagation) 0 biases_number) (\<lambda>g.
         memcpy g (index + biases_number) (buf (synaptic_weights_derivatives back_propagation)) 0
           synaptic_weights_number))"

section \<open>Tensor utilities\<close>

text \<open>
  \<^verbatim>\<open>type\<close> is a floating point type: besides the finite numbers it has the two
  infinities and NaN, which the utilities meet (\<^verbatim>\<open>count_NAN\<close>, \<^verbatim>\<open>scrub_missing_values\<close>).
  Comparisons of \<^verbatim>\<open>is_constant\<close> are decided by these special values, so its
  vectors are modelled with them.  The difference of two finite numbers is zero exactly
  when they are equal, with or without rounding; it is written unrounded.
\<close>

datatype ftype = Finite real | PlusInf | MinusInf | NaN

fun fsub :: "ftype \<Rightarrow> ftype \<Rightarrow> ftype" where
  "fsub NaN y = NaN"
| "fsub x NaN = NaN"
| "fsub (Finite a) (Finite b) = Finite (a - b)"
| "fsub (Finite a) PlusInf = MinusInf"
| "fsub (Finite a) MinusInf = PlusInf"
| "fsub PlusInf (Finite b) = PlusInf"
| "fsub PlusInf MinusInf = PlusInf"
| "fsub PlusInf PlusInf = NaN"
| "fsub MinusInf (Finite b) = MinusInf"
| "fsub MinusInf PlusInf = MinusInf"
| "fsub MinusInf MinusInf = NaN"

text \<open>The operators \<^verbatim>\<open>==\<close> and \<^verbatim>\<open>!=\<close>: NaN is unequal to everything, itself included.\<close>

fun feq :: "ftype \<Rightarrow> ftype \<Rightarrow> bool" where
  "feq NaN y = False"
| "feq x NaN = False"
| "feq x y = (x = y)"

definition fne :: "ftype \<Rightarrow> ftype \<Rightarrow> bool" where
  "fne x y = (\<not> feq x y)"

definition is_finite :: "ftype \<Rightarrow> bool" where
  "is_finite x = (case x of Finite r \<Rightarrow> True | _ \<Rightarrow> False)"

text \<open>\<^verbatim>\<open>is_constant\<close>: two nested loops, left at the first pair whose difference is not zero.\<close>

fun is_constant_inner :: "ftype list \<Rightarrow> nat \<Rightarrow> nat list \<Rightarrow> bool" where
  "is_constant_inner vector i [] = True"
| "is_constant_inner vector i (j # js) =
     (if fne (fsub (vector ! i) (vector ! j)) (Finite 0) then False
      else is_constant_inner vector i js)"

fun is_constant_outer :: "ftype list \<Rightarrow> nat list \<Rightarrow> bool" where
  "is_constant_outer vector [] = True"
| "is_constant_outer vector (i # is) =
     (if is_constant_inner vector i [0..<length vector] then is_constant_outer vector is
      else False)"

definition is_constant :: "ftype list \<Rightarrow> bool" where
  "is_constant vector = is_constant_outer vector [0..<length vector]"

text \<open>
  \<^verbatim>\<open>kronecker_product\<close> reads \<^verbatim>\<open>other_vector\<close> up to the size of \<^verbatim>\<open>vector\<close>.
\<close>

definition kronecker_product :: "'a::times list \<Rightarrow> 'a list \<Rightarrow> error + 'a tensor2" where
  "kronecker_product vector other_vector =
     (let sz = length vector
      in if length other_vector < sz then Inl Undefined
         else Inr (tabulate2 sz sz (\<lambda>i j. vector ! i * other_vector ! j)))"

text \<open>
  The norms work on finite numbers; \<open>numeric_limits_min\<close> is the macro
  \<^verbatim>\<open>NUMERIC_LIMITS_MIN\<close> of \<^verbatim>\<open>config.h\<close>, which is not among the sources.
\<close>

definition l2_norm :: "real list \<Rightarrow> real" where
  "l2_norm vector = sqrt (\<Sum>x\<leftarrow>vector. x * x)"

definition setZero1 :: "'a::zero list \<Rightarrow> 'a list" where
  "setZero1 v = replicate (length v) 0"

definition setZero2 :: "'a::zero tensor2 \<Rightarrow> 'a tensor2" where
  "setZero2 t = t\<lparr>buf := replicate (length (buf t)) 0\<rparr>"

definition l2_norm_gradient :: "real \<Rightarrow> real list \<Rightarrow> real list \<Rightarrow> error + real list" where
  "l2_norm_gradient numeric_limits_min vector gradient =
     (let norm = l2_norm vector
      in if norm < numeric_limits_min then Inr (setZero1 gradient)
         else assign_device1 gradient (map (\<lambda>x. x / norm) vector))"

definition l2_norm_hessian :: "real \<Rightarrow> real list \<Rightarrow> real tensor2 \<Rightarrow> error + real tensor2" where
  "l2_norm_hessian numeric_limits_min vector hessian =
     (let norm = l2_norm vector
      in if norm < numeric_limits_min then Inr (setZero2 hessian)
         else bindE (kronecker_product vector vector) (\<lambda>k.
              assign_device hessian (k\<lparr>buf := map (\<lambda>x. x / (norm * norm * norm)) (buf k)\<rparr>)))"

section \<open>The quasi-Newton method\<close>

text \<open>
  The quasi-Newton method.  Its header gives the enumeration of the update methods, the
  data of a training run and the names of the operations; the file that defines the
  operations is not among the sources.
\<close>

datatype InverseHessianApproximationMethod = DFP | BFGS

record QuasiNewtonMehtodData =
  old_parameters :: "real list"
  parameters_difference :: "real list"
  parameters_increment :: "real list"
  old_gradient :: "real list"
  gradient_difference :: "real list"
  inverse_hessian :: "real tensor2"
  old_inverse_hessian :: "real tensor2"
  old_inverse_hessian_dot_gradient_difference :: "real list"
  epoch :: nat
  training_slope :: real
  learning_rate :: real
  old_learning_rate :: real

text \<open>
  The inner product \<open>u \<cdot> v\<close> and the product \<open>H \<cdot> v\<close> of a matrix with a vector, over
  the real numbers.
\<close>

definition dot :: "real list \<Rightarrow> real list \<Rightarrow> real" where
  "dot u v = (\<Sum>i\<leftarrow>[0..<length u]. u ! i * v ! i)"

definition matrix_vector :: "real tensor2 \<Rightarrow> real list \<Rightarrow> real list" where
  "matrix_vector H v = map (\<lambda>i. \<Sum>j\<leftarrow>[0..<d1 H]. at2 H i j * v ! j) [0..<d0 H]"

text \<open>
  Modelled from the spec: \<^verbatim>\<open>calculate_DFP_inverse_hessian\<close>, declared in
  \<^verbatim>\<open>quasi_newton_method.h\<close>, is defined in a file that is not among the sources.  The
  specification gives the update
  \<open>H' = H + (\<Delta>p\<otimes>\<Delta>p)/(\<Delta>p\<cdot>\<Delta>g) - (H\<cdot>\<Delta>g)\<otimes>(H\<cdot>\<Delta>g)/(\<Delta>g\<cdot>H\<cdot>\<Delta>g)\<close>
  from the parameters difference, the gradient difference and the previous inverse
  Hessian.
\<close>

definition calculate_DFP_inverse_hessian :: "QuasiNewtonMehtodData \<Rightarrow> QuasiNewtonMehtodData" where
  "calculate_DFP_inverse_hessian optimization_data =
     (let dp = parameters_difference optimization_data;
          dg = gradient_difference optimization_data;
          H = old_inverse_hessian optimization_data;
          Hg = matrix_vector H dg
      in optimization_data
           \<lparr>old_inverse_hessian_dot_gradient_difference := Hg,
            inverse_hessian := tabulate2 (d0 H) (d1 H)
              (\<lambda>i j. at2 H i j + (dp ! i * dp ! j) / dot dp dg
                       - (Hg ! i * Hg ! j) / dot dg Hg)\<rparr>)"

text \<open>
  Modelled from the spec: \<^verbatim>\<open>calculate_BFGS_inverse_hessian\<close>, declared in
  \<^verbatim>\<open>quasi_newton_method.h\<close>, is defined in a file that is not among the sources.  The
  specification gives the update
  \<open>H' = H + (1 + (\<Delta>g\<cdot>H\<cdot>\<Delta>g)/(\<Delta>p\<cdot>\<Delta>g))\<cdot>(\<Delta>p\<otimes>\<Delta>p)/(\<Delta>p\<cdot>\<Delta>g)
    - (H\<cdot>\<Delta>g\<otimes>\<Delta>p + \<Delta>p\<otimes>H\<cdot>\<Delta>g)/(\<Delta>p\<cdot>\<Delta>g)\<close>.
\<close>

definition calculate_BFGS_inverse_hessian :: "QuasiNewtonMehtodData \<Rightarrow> QuasiNewtonMehtodData" where
  "calculate_BFGS_inverse_hessian optimization_data =
     (let dp = parameters_difference optimization_data;
          dg = gradient_difference optimization_data;
          H = old_inverse_hessian optimization_data;
          Hg = matrix_vector H dg
      in optimization_data
           \<lparr>old_inverse_hessian_dot_gradient_difference := Hg,
            inverse_hessian := tabulate2 (d0 H) (d1 H)
              (\<lambda>i j. at2 H i j
                       + (1 + dot dg Hg / dot dp dg) * (dp ! i * dp ! j) / dot dp dg
                       - (Hg ! i * dp ! j + dp ! i * Hg ! j) / dot dp dg)\<rparr>)"

definition identity_matrix :: "nat \<Rightarrow> nat \<Rightarrow> real tensor2" where
  "identity_matrix r c = tabulate2 r c (\<lambda>i j. if i = j then 1 else 0)"

text \<open>
  Modelled from the spec: the guard of \<^verbatim>\<open>calculate_inverse_hessian_approximation\<close>,
  whose definition is not among the sources: \<open>\<Delta>p\<cdot>\<Delta>g\<close> is numerically zero, or
  \<open>\<Delta>p\<close> or \<open>\<Delta>g\<close> is the zero vector.  Numerically zero is read as \<^verbatim>\<open>is_zero\<close> of
  the tensor utilities reads it: the absolute value does not exceed
  \<^verbatim>\<open>NUMERIC_LIMITS_MIN\<close>.
\<close>

definition degenerate_update :: "real \<Rightarrow> real list \<Rightarrow> real list \<Rightarrow> bool" where
  "degenerate_update numeric_limits_min dp dg \<longleftrightarrow>
     \<bar>dot dp dg\<bar> \<le> numeric_limits_min \<or> list_all (\<lambda>x. x = 0) dp \<or> list_all (\<lambda>x. x = 0) dg"

text \<open>
  Modelled from the spec: \<^verbatim>\<open>calculate_inverse_hessian_approximation\<close>, declared in
  \<^verbatim>\<open>quasi_newton_method.h\<close>, is defined in a file that is not among the sources.  By
  the specification it resets the inverse Hessian to the identity matrix when the guard
  holds, and otherwise updates it by the configured method.
\<close>

definition calculate_inverse_hessian_approximation ::
  "real \<Rightarrow> InverseHessianApproximationMethod \<Rightarrow> QuasiNewtonMehtodData \<Rightarrow> QuasiNewtonMehtodData" where
  "calculate_inverse_hessian_approximation numeric_limits_min inverse_hessian_approximation_method
       optimization_data =
     (if degenerate_update numeric_limits_min (parameters_difference optimization_data)
           (gradient_difference optimization_data)
      then optimization_data
             \<lparr>inverse_hessian := identity_matrix (d0 (inverse_hessian optimization_data))
                                  (d1 (inverse_hessian optimization_data))\<rparr>
      else (case inverse_hessian_approximation_method of
              DFP \<Rightarrow> calculate_DFP_inverse_hessian optimization_data
            | BFGS \<Rightarrow> calculate_BFGS_inverse_hessian optimization_data))"

section \<open>Predicates of the statements\<close>

text \<open>
  A flat vector \<open>v\<close> holds, from offset \<open>off\<close> on, first \<open>nb\<close> biases and then an
  \<open>r\<close> by \<open>c\<close> matrix of weights column by column: within the column of a neuron
  the index of the input runs fastest.
\<close>

definition layout ::
  "'a list \<Rightarrow> nat \<Rightarrow> nat \<Rightarrow> nat \<Rightarrow> nat \<Rightarrow> (nat \<Rightarrow> 'a) \<Rightarrow> (nat \<Rightarrow> nat \<Rightarrow> 'a) \<Rightarrow> bool" where
  "layout v off nb r c bias weight \<longleftrightarrow>
     (\<forall>j<nb. v ! (off + j) = bias j) \<and>
     (\<forall>i<r. \<forall>k<c. v ! (off + nb + (i + k * r)) = weight i k)"

text \<open>The layer has \<open>i\<close> inputs and \<open>n\<close> neurons, in its tensors and for its getters.\<close>

definition sized :: "nat \<Rightarrow> nat \<Rightarrow> 'a PerceptronLayer \<Rightarrow> bool" where
  "sized i n L \<longleftrightarrow>
     d0 (synaptic_weights L) = i \<and> d1 (synaptic_weights L) = n \<and> size2 (biases L) = n \<and>
     get_inputs_number L = i \<and> get_neurons_number L = n"




text \<open>
  The Jacobian of sample \<open>s\<close> as the softmax branch reads it: coefficient \<open>(j, k)\<close> of
  the \<open>n\<close> by \<open>n\<close> matrix that \<^verbatim>\<open>TensorMap\<close> lays over the buffer of the derivatives
  from offset \<open>s * n * n\<close> on.  For more than one sample this is not coefficient
  \<open>(s, j, k)\<close> of the tensor of derivatives, which is \<open>at3\<close>.
\<close>

definition jacobian_block :: "'a tensor3 \<Rightarrow> nat \<Rightarrow> nat \<Rightarrow> nat \<Rightarrow> nat \<Rightarrow> 'a" where
  "jacobian_block derivatives n s j k = buf3 derivatives ! (s * (n * n) + (j + k * n))"


section \<open>Example data\<close>

definition example_layer :: "real PerceptronLayer" where
  "example_layer =
     \<lparr>layer_name = ''perceptron_layer'', layer_type = Perceptron, display = True,
      activation_function = Linear,
      biases = \<lparr>d0 = 1, d1 = 2, buf = [10, 20]\<rparr>,
      synaptic_weights = \<lparr>d0 = 3, d1 = 2, buf = [1, 2, 3, 4, 5, 6]\<rparr>\<rparr>"

definition example_parameters :: "real list" where
  "example_parameters = [7, 8, 11, 12, 13, 14, 15, 16]"

definition example_layer_set :: "real PerceptronLayer" where
  "example_layer_set =
     \<lparr>layer_name = ''perceptron_layer'', layer_type = Perceptron, display = True,
      activation_function = Linear,
      biases = \<lparr>d0 = 1, d1 = 2, buf = [7, 8]\<rparr>,
      synaptic_weights = \<lparr>d0 = 3, d1 = 2, buf = [11, 12, 13, 14, 15, 16]\<rparr>\<rparr>"

definition example_back_propagation :: "real PerceptronLayerBackPropagation" where
  "example_back_propagation =
     \<lparr>batch_samples_number = 1, delta = \<lparr>d0 = 1, d1 = 2, buf = [1, 1]\<rparr>,
      biases_derivatives = [21, 22],
      synaptic_weights_derivatives = \<lparr>d0 = 3, d1 = 2, buf = [31, 32, 33, 34, 35, 36]\<rparr>\<rparr>"

definition example_forward_propagation :: "real PerceptronLayerForwardPropagation" where
  "example_forward_propagation =
     \<lparr>combinations = \<lparr>d0 = 1, d1 = 2, buf = [0, 0]\<rparr>,
      activations = \<lparr>d0 = 1, d1 = 2, buf = [0, 0]\<rparr>,
      activations_derivatives = \<lparr>d0 = 1, d1 = 2, buf = [0, 0]\<rparr>\<rparr>"

definition example_linear :: "real activation_functions" where
  "example_linear f c a d = Inr (c, d\<lparr>buf := replicate (length (buf d)) 1\<rparr>)"

text \<open>An arithmetic for the examples with real coefficients: nothing rounds.\<close>

definition example_arithmetic :: "real arithmetic" where
  "example_arithmetic =
     \<lparr>coef_times = (*), coef_plus = (+),
      reduce_sum = (\<lambda>j xs. sum_list xs),
      inner_product = (\<lambda>i j u v. sum_list (map2 (*) u v)),
      inner_product1 = (\<lambda>j u v. sum_list (map2 (*) u v))\<rparr>"


































definition example_optimization_data :: QuasiNewtonMehtodData where
  "example_optimization_data =
     \<lparr>old_parameters = [1, 1], parameters_difference = [0, 0], parameters_increment = [0, 0],
      old_gradient = [3, 4], gradient_difference = [1, 2],
      inverse_hessian = \<lparr>d0 = 2, d1 = 2, buf = [5, 6, 7, 8]\<rparr>,
      old_inverse_hessian = \<lparr>d0 = 2, d1 = 2, buf = [5, 6, 7, 8]\<rparr>,
      old_inverse_hessian_dot_gradient_difference = [0, 0],
      epoch = 0, training_slope = 0, learning_rate = 0, old_learning_rate = 0\<rparr>"

section \<open>Buffers and list updates\<close>

lemma fold_update_length:
  "length (fold (\<lambda>i p. p[off + i := g i]) [0..<n] p) = length p"
  by (induction n) simp_all

lemma fold_update_nth:
  "k < length p \<Longrightarrow>
   fold (\<lambda>i p. p[off + i := g i]) [0..<n] p ! k =
     (if off \<le> k \<and> k < off + n then g (k - off) else p ! k)"
proof (induction n)
  case 0
  then show ?case by auto
next
  case (Suc n)
  have len: "k < length (fold (\<lambda>i p. p[off + i := g i]) [0..<n] p)"
    using Suc.prems by (simp add: fold_update_length)
  show ?case
  proof (cases "k = off + n")
    case True
    then show ?thesis using len by simp
  next
    case False
    then show ?thesis using Suc by (auto simp: nth_list_update)
  qed
qed

lemma fold_update_nth0:
  "k < length p \<Longrightarrow>
   fold (\<lambda>i p. p[i := g i]) [0..<n] p ! k = (if k < n then g k else p ! k)"
  using fold_update_nth [of k p 0 g n] by simp

lemma fold_update_length0:
  "length (fold (\<lambda>i p. p[i := g i]) [0..<n] p) = length p"
  using fold_update_length [of 0 g n p] by simp

lemma get_parameters_length:
  "length (get_parameters mem L) = size2 (biases L) + size2 (synaptic_weights L)"
  by (simp add: get_parameters_def Let_def fold_update_length fold_update_length0)

lemma get_parameters_nth:
  assumes "k < size2 (biases L) + size2 (synaptic_weights L)"
  shows "get_parameters mem L ! k =
           (if k < size2 (biases L) then at_lin (biases L) k
            else at_lin (synaptic_weights L) (k - size2 (biases L)))"
proof -
  let ?b = "size2 (biases L)" and ?w = "size2 (synaptic_weights L)"
  let ?p0 = "map mem [0..<?w + ?b]"
  let ?p1 = "fold (\<lambda>i p. p[i := at_lin (biases L) i]) [0..<?b] ?p0"
  have l1: "k < length ?p1" using assms by (simp add: fold_update_length0)
  have n1: "?p1 ! k = (if k < ?b then at_lin (biases L) k else ?p0 ! k)"
    using assms by (subst fold_update_nth0) simp_all
  have "get_parameters mem L ! k =
          fold (\<lambda>i p. p[?b + i := at_lin (synaptic_weights L) i]) [0..<?w] ?p1 ! k"
    by (simp add: get_parameters_def Let_def)
  also have "\<dots> = (if ?b \<le> k \<and> k < ?b + ?w then at_lin (synaptic_weights L) (k - ?b)
                     else ?p1 ! k)"
    by (rule fold_update_nth [OF l1])
  finally show ?thesis using assms n1 by auto
qed

lemma get_parameters_append:
  assumes "wf_layer L"
  shows "get_parameters mem L = buf (biases L) @ buf (synaptic_weights L)"
proof (rule nth_equalityI)
  show "length (get_parameters mem L) = length (buf (biases L) @ buf (synaptic_weights L))"
    using assms by (simp add: get_parameters_length wf_layer_def wf2_def size2_def)
next
  fix k assume "k < length (get_parameters mem L)"
  then have k: "k < size2 (biases L) + size2 (synaptic_weights L)"
    by (simp add: get_parameters_length)
  have lb: "length (buf (biases L)) = size2 (biases L)"
    using assms by (simp add: wf_layer_def wf2_def size2_def)
  show "get_parameters mem L ! k = (buf (biases L) @ buf (synaptic_weights L)) ! k"
    using k lb by (simp add: get_parameters_nth nth_append at_lin_def)
qed

lemma tabulate2_at:
  "i < r \<Longrightarrow> j < c \<Longrightarrow> at2 (tabulate2 r c f) i j = f i j"
proof -
  assume i: "i < r" and j: "j < c"
  have "i + j * r < r + j * r" using i by simp
  also have "\<dots> = Suc j * r" by simp
  also have "\<dots> \<le> c * r" using j by (intro mult_le_mono1) simp
  finally have "i + j * r < r * c" by (simp add: mult.commute)
  then show ?thesis using i by (simp add: at2_def tabulate2_def)
qed


section \<open>Parameters round trip\<close>

text \<open>
  C1.  For every perceptron layer (its tensors holding as many coefficients as their
  dimensions say), \<^verbatim>\<open>get_parameters()\<close> followed by \<^verbatim>\<open>set_parameters()\<close> with the returned
  vector at index 0 succeeds and leaves the layer as it was: biases and synaptic weights
  are identical coefficient by coefficient, and so are their dimensions.
\<close>

theorem get_set_parameters_roundtrip:
  assumes "wf_layer L"
  shows "set_parameters (get_parameters mem L) 0 L = Inr L"
proof -
  have lb: "length (buf (biases L)) = size2 (biases L)"
    and lw: "length (buf (synaptic_weights L)) = size2 (synaptic_weights L)"
    using assms by (simp_all add: wf_layer_def wf2_def size2_def)
  have p: "get_parameters mem L = buf (biases L) @ buf (synaptic_weights L)"
    by (rule get_parameters_append [OF assms])
  have m1: "memcpy (buf (biases L)) 0 (get_parameters mem L) 0 (size2 (biases L))
              = Inr (buf (biases L))"
    by (simp add: memcpy_def p lb)
  have m2: "memcpy (buf (synaptic_weights L)) 0 (get_parameters mem L) (size2 (biases L))
              (size2 (synaptic_weights L)) = Inr (buf (synaptic_weights L))"
    by (simp add: memcpy_def p lb lw)
  show ?thesis
    by (simp add: set_parameters_def Let_def get_biases_number_def
        get_synaptic_weights_number_def m1 m2 bindE_def)
qed

theorem get_set_parameters_roundtrip_witness:
  "wf_layer example_layer \<and>
   set_parameters (get_parameters (\<lambda>_. 0) example_layer) 0 example_layer = Inr example_layer"
proof -
  have w: "wf_layer example_layer"
    by (simp add: wf_layer_def wf2_def example_layer_def)
  show ?thesis using w get_set_parameters_roundtrip [OF w, of "\<lambda>_. 0"] by simp
qed

section \<open>Constant vectors\<close>

lemma is_constant_inner_iff:
  "is_constant_inner v i js \<longleftrightarrow> (\<forall>j\<in>set js. feq (fsub (v ! i) (v ! j)) (Finite 0))"
  by (induction js) (simp_all add: fne_def)

lemma is_constant_outer_iff:
  "is_constant_outer v is \<longleftrightarrow> (\<forall>i\<in>set is. is_constant_inner v i [0..<length v])"
  by (induction "is") simp_all

lemma difference_zero_iff:
  "feq (fsub x y) (Finite 0) \<longleftrightarrow> is_finite x \<and> x = y"
  by (cases x; cases y) (simp_all add: is_finite_def)

text \<open>
  What the two loops decide, special values included: all elements are finite and equal.
\<close>

lemma is_constant_iff:
  "is_constant v \<longleftrightarrow> (\<forall>i<length v. \<forall>j<length v. is_finite (v ! i) \<and> v ! i = v ! j)"
  unfolding is_constant_def is_constant_outer_iff is_constant_inner_iff difference_zero_iff
  by (simp add: Ball_def)

text \<open>
  C10, for finite numbers.  For every vector \<open>v\<close> whose elements are all finite,
  \<^verbatim>\<open>is_constant(v)\<close> returns true exactly when every pair of elements is equal, with
  no tolerance.  It returns true for the empty vector and for every vector of length one
  whose element is finite.
\<close>

theorem is_constant_finite_equal:
  "((\<forall>x\<in>set v. is_finite x) \<longrightarrow>
      (is_constant v \<longleftrightarrow> (\<forall>i<length v. \<forall>j<length v. v ! i = v ! j)))
   \<and> is_constant [] \<and> (is_finite x \<longrightarrow> is_constant [x])"
proof -
  have "is_constant []" by (simp add: is_constant_iff)
  moreover have "is_finite x \<longrightarrow> is_constant [x]" by (simp add: is_constant_iff)
  moreover have "is_constant v \<longleftrightarrow> (\<forall>i<length v. \<forall>j<length v. v ! i = v ! j)"
    if "\<forall>x\<in>set v. is_finite x"
    using that by (auto simp: is_constant_iff)
  ultimately show ?thesis by blast
qed

theorem is_constant_finite_equal_witness:
  "is_constant [Finite 1, Finite 1] \<and> is_constant [] \<and> is_constant [Finite 2]"
proof -
  have h: "\<forall>i<length [Finite 1, Finite 1]. \<forall>j<length [Finite 1, Finite 1].
             [Finite 1, Finite 1] ! i = [Finite 1, Finite 1] ! j"
    by (simp add: All_less_Suc)
  have f: "is_finite (Finite 2)" "\<forall>x\<in>set [Finite 1, Finite 1]. is_finite x"
    by (simp_all add: is_finite_def)
  show ?thesis
    using is_constant_finite_equal [of "[Finite 1, Finite 1]" "Finite 2"] h f by blast
qed

text \<open>
  C10 does not hold for every vector: the vector of length one that holds an infinity
  has all its pairs equal (also for \<^verbatim>\<open>==\<close>), and \<^verbatim>\<open>is_constant\<close> returns false.
\<close>

theorem is_constant_infinity_counterexample:
  "length [PlusInf] = 1 \<and> feq ([PlusInf] ! 0) ([PlusInf] ! 0) \<and> \<not> is_constant [PlusInf]"
  by (simp add: is_constant_def fne_def)

section \<open>The norm of a vector near zero\<close>

lemma l2_norm_zero: "\<forall>x\<in>set v. x = 0 \<Longrightarrow> l2_norm v = 0"
  by (induction v) (simp_all add: l2_norm_def)

text \<open>
  C9.  When the L2 norm of the vector is below \<^verbatim>\<open>NUMERIC_LIMITS_MIN\<close>,
  \<^verbatim>\<open>l2_norm_gradient\<close> returns without error with the gradient set to zero and
  \<^verbatim>\<open>l2_norm_hessian\<close> returns without error with the Hessian set to zero, each
  keeping its dimensions.  That is so in particular for the zero vector, the threshold
  being positive.
\<close>

theorem l2_norm_below_minimum:
  "(l2_norm v < numeric_limits_min \<longrightarrow>
      l2_norm_gradient numeric_limits_min v gradient = Inr (replicate (length gradient) 0) \<and>
      l2_norm_hessian numeric_limits_min v hessian
        = Inr (hessian\<lparr>buf := replicate (length (buf hessian)) 0\<rparr>))
   \<and> ((\<forall>x\<in>set v. x = 0) \<and> 0 < numeric_limits_min \<longrightarrow>
      l2_norm_gradient numeric_limits_min v gradient = Inr (replicate (length gradient) 0) \<and>
      l2_norm_hessian numeric_limits_min v hessian
        = Inr (hessian\<lparr>buf := replicate (length (buf hessian)) 0\<rparr>))"
proof -
  have a: "l2_norm v < numeric_limits_min \<Longrightarrow>
      l2_norm_gradient numeric_limits_min v gradient = Inr (replicate (length gradient) 0)"
    by (simp add: l2_norm_gradient_def Let_def setZero1_def)
  have b: "l2_norm v < numeric_limits_min \<Longrightarrow>
      l2_norm_hessian numeric_limits_min v hessian
        = Inr (hessian\<lparr>buf := replicate (length (buf hessian)) 0\<rparr>)"
    by (simp add: l2_norm_hessian_def Let_def setZero2_def)
  have c: "(\<forall>x\<in>set v. x = 0) \<and> 0 < numeric_limits_min \<Longrightarrow> l2_norm v < numeric_limits_min"
    by (simp add: l2_norm_zero)
  show ?thesis using a b c by blast
qed

theorem l2_norm_below_minimum_witness:
  "l2_norm [0, 0] < 1 / 1000000 \<and>
   l2_norm_gradient (1 / 1000000) [0, 0] [5, 7] = Inr [0, 0] \<and>
   l2_norm_hessian (1 / 1000000) [0, 0] \<lparr>d0 = 2, d1 = 2, buf = [1, 2, 3, 4]\<rparr>
     = Inr \<lparr>d0 = 2, d1 = 2, buf = [0, 0, 0, 0]\<rparr>"
proof -
  have n: "l2_norm [0, 0] < 1 / 1000000" by (simp add: l2_norm_def)
  have z: "(\<forall>x\<in>set [0, 0 :: real]. x = 0) \<and> (0 :: real) < 1 / 1000000" by simp
  show ?thesis
    using n z l2_norm_below_minimum [of "[0, 0]" "1 / 1000000" "[5, 7]"
        "\<lparr>d0 = 2, d1 = 2, buf = [1, 2, 3, 4]\<rparr>"]
    by (simp add: numeral_eq_Suc)
qed

section \<open>Sizes of a layer\<close>

lemma resize2_dims [simp]:
  "d0 (resize2 mem r c t) = r" "d1 (resize2 mem r c t) = c"
  by (simp_all add: resize2_def)

lemma resize2_wf: "wf2 t \<Longrightarrow> wf2 (resize2 mem r c t)"
  by (simp add: resize2_def wf2_def size2_def)

lemma set_parameters_random_dims [simp]:
  "d0 (biases (set_parameters_random rnd L)) = d0 (biases L)"
  "d1 (biases (set_parameters_random rnd L)) = d1 (biases L)"
  "d0 (synaptic_weights (set_parameters_random rnd L)) = d0 (synaptic_weights L)"
  "d1 (synaptic_weights (set_parameters_random rnd L)) = d1 (synaptic_weights L)"
  by (simp_all add: set_parameters_random_def Let_def)

lemma set_parameters_random_wf: "wf_layer L \<Longrightarrow> wf_layer (set_parameters_random rnd L)"
  by (simp add: set_parameters_random_def Let_def wf_layer_def wf2_def fold_update_length0)

lemma set_layer_dims:
  "d0 (synaptic_weights (set_layer mem rnd i n af L)) = i"
  "d1 (synaptic_weights (set_layer mem rnd i n af L)) = n"
  "d0 (biases (set_layer mem rnd i n af L)) = 1"
  "d1 (biases (set_layer mem rnd i n af L)) = n"
  by (simp_all add: set_layer_def Let_def set_default_def)

lemma set_layer_wf: "wf_layer L \<Longrightarrow> wf_layer (set_layer mem rnd i n af L)"
proof -
  assume w: "wf_layer L"
  let ?L1 = "L\<lparr>biases := resize2 mem 1 n (biases L)\<rparr>"
  let ?L2 = "?L1\<lparr>synaptic_weights := resize2 mem i n (synaptic_weights ?L1)\<rparr>"
  have "wf_layer ?L2" using w by (simp add: wf_layer_def resize2_wf)
  then have "wf_layer (set_parameters_random rnd ?L2)" by (rule set_parameters_random_wf)
  then show ?thesis by (simp add: set_layer_def Let_def set_default_def wf_layer_def)
qed


text \<open>
  C8.  After \<^verbatim>\<open>set\<close> with an input and a neuron count, after \<^verbatim>\<open>set_inputs_number\<close>
  and after \<^verbatim>\<open>set_neurons_number\<close>, the matrix of synaptic weights has as many rows as
  the layer has inputs and as many columns as it has neurons, the biases are as many as
  the neurons, and \<^verbatim>\<open>get_inputs_number\<close> and \<^verbatim>\<open>get_neurons_number\<close> return the
  configured counts (the new count for the one that was set, the old one for the
  other).  The buffers keep holding as many coefficients as the dimensions say.
\<close>

theorem sizing_invariant:
  "sized i n (set_layer mem rnd i n af L)
   \<and> sized i (get_neurons_number L) (set_inputs_number mem' i L)
   \<and> sized (get_inputs_number L) n (set_neurons_number mem' n L)
   \<and> (wf_layer L \<longrightarrow> wf_layer (set_layer mem rnd i n af L) \<and> wf_layer (set_inputs_number mem' i L) \<and> wf_layer (set_neurons_number mem' n L))"
proof -
  have 1: "sized i n (set_layer mem rnd i n af L)"
    by (simp add: sized_def set_layer_dims get_inputs_number_def get_neurons_number_def size2_def)
  have 2: "sized i (get_neurons_number L) (set_inputs_number mem' i L)"
    by (simp add: sized_def set_inputs_number_def Let_def get_inputs_number_def get_neurons_number_def size2_def)
  have 3: "sized (get_inputs_number L) n (set_neurons_number mem' n L)"
    by (simp add: sized_def set_neurons_number_def Let_def get_inputs_number_def get_neurons_number_def size2_def)
  have 4: "wf_layer L \<Longrightarrow> wf_layer (set_inputs_number mem' i L)"
    by (simp add: set_inputs_number_def Let_def wf_layer_def resize2_wf)
  have 5: "wf_layer L \<Longrightarrow> wf_layer (set_neurons_number mem' n L)"
    by (simp add: set_neurons_number_def Let_def wf_layer_def resize2_wf)
  show ?thesis using 1 2 3 4 5 set_layer_wf by blast
qed

theorem sizing_invariant_witness:
  "wf_layer example_layer
   \<and> sized 4 5 (set_layer (\<lambda>_. 0) (\<lambda>_. 1 / 2) 4 5 Logistic example_layer)
   \<and> sized 4 2 (set_inputs_number (\<lambda>_. 0) 4 example_layer)
   \<and> sized 3 5 (set_neurons_number (\<lambda>_. 0) 5 example_layer)
   \<and> wf_layer (set_layer (\<lambda>_. 0) (\<lambda>_. 1 / 2) 4 5 Logistic example_layer)
   \<and> wf_layer (set_inputs_number (\<lambda>_. 0) 4 example_layer)
   \<and> wf_layer (set_neurons_number (\<lambda>_. 0) 5 example_layer)"
proof -
  have w: "wf_layer example_layer"
    by (simp add: wf_layer_def wf2_def example_layer_def)
  have g: "get_neurons_number example_layer = 2" "get_inputs_number example_layer = 3"
    by (simp_all add: example_layer_def get_neurons_number_def get_inputs_number_def size2_def)
  show ?thesis
    using sizing_invariant [where L = example_layer and i = 4 and n = 5 and mem = "\<lambda>_. 0"
        and rnd = "\<lambda>_. 1 / 2" and af = Logistic and mem' = "\<lambda>_. 0"] w g
    by simp
qed

section \<open>Layout of the parameters\<close>

lemma colmajor_less: "i < r \<Longrightarrow> j < c \<Longrightarrow> i + j * r < r * (c::nat)"
proof -
  assume i: "i < r" and j: "j < c"
  have "i + j * r < r + j * r" using i by simp
  also have "\<dots> = Suc j * r" by simp
  also have "\<dots> \<le> c * r" using j by (intro mult_le_mono1) simp
  finally show ?thesis by (simp add: mult.commute)
qed

lemma memcpy_length: "memcpy dst doff src soff n = Inr r \<Longrightarrow> length r = length dst"
  by (auto simp: memcpy_def split: if_splits)

lemma memcpy_copied:
  "memcpy dst doff src soff n = Inr r \<Longrightarrow> k < n \<Longrightarrow> r ! (doff + k) = src ! (soff + k)"
  by (auto simp: memcpy_def nth_append split: if_splits)

lemma memcpy_before:
  "memcpy dst doff src soff n = Inr r \<Longrightarrow> k < doff \<Longrightarrow> r ! k = dst ! k"
  by (auto simp: memcpy_def nth_append split: if_splits)

lemma memcpy_bounds:
  "memcpy dst doff src soff n = Inr r \<Longrightarrow> soff + n \<le> length src \<and> doff + n \<le> length dst"
  by (auto simp: memcpy_def split: if_splits)

lemma bindE_simps [simp]: "bindE (Inr x) f = f x" "bindE (Inl e) f = Inl e"
  by (simp_all add: bindE_def)

lemma bindE_Inr:
  "bindE m f = Inr y \<longleftrightarrow> (\<exists>x. m = Inr x \<and> f x = Inr y)"
  by (cases m) (simp_all add: bindE_def)

lemma set_parameters_Inr:
  assumes "set_parameters p idx L = Inr L'"
  obtains b w where
    "memcpy (buf (biases L)) 0 p idx (size2 (biases L)) = Inr b"
    "memcpy (buf (synaptic_weights L)) 0 p (size2 (biases L) + idx) (size2 (synaptic_weights L)) = Inr w"
    "L' = L\<lparr>biases := (biases L)\<lparr>buf := b\<rparr>, synaptic_weights := (synaptic_weights L)\<lparr>buf := w\<rparr>\<rparr>"
  using assms
  by (auto simp: set_parameters_def Let_def bindE_Inr get_biases_number_def
      get_synaptic_weights_number_def)

lemma get_parameters_layout:
  assumes "wf_layer L"
  shows "j < size2 (biases L) \<Longrightarrow> get_parameters mem L ! j = at_lin (biases L) j"
    and "i < d0 (synaptic_weights L) \<Longrightarrow> k < d1 (synaptic_weights L) \<Longrightarrow>
         get_parameters mem L ! (size2 (biases L) + (i + k * d0 (synaptic_weights L)))
           = at2 (synaptic_weights L) i k"
proof -
  show "j < size2 (biases L) \<Longrightarrow> get_parameters mem L ! j = at_lin (biases L) j"
    by (simp add: get_parameters_nth)
next
  assume i: "i < d0 (synaptic_weights L)" and k: "k < d1 (synaptic_weights L)"
  have "i + k * d0 (synaptic_weights L) < size2 (synaptic_weights L)"
    unfolding size2_def by (rule colmajor_less [OF i k])
  then show "get_parameters mem L ! (size2 (biases L) + (i + k * d0 (synaptic_weights L)))
           = at2 (synaptic_weights L) i k"
    by (simp add: get_parameters_nth at_lin_def at2_def)
qed

lemma set_parameters_layout:
  assumes "set_parameters p idx L = Inr L'"
  shows "d0 (biases L') = d0 (biases L) \<and> d1 (biases L') = d1 (biases L) \<and>
         d0 (synaptic_weights L') = d0 (synaptic_weights L) \<and>
         d1 (synaptic_weights L') = d1 (synaptic_weights L)"
    and "j < size2 (biases L) \<Longrightarrow> at_lin (biases L') j = p ! (idx + j)"
    and "i < d0 (synaptic_weights L) \<Longrightarrow> k < d1 (synaptic_weights L) \<Longrightarrow>
         at2 (synaptic_weights L') i k = p ! (idx + size2 (biases L) + (i + k * d0 (synaptic_weights L)))"
proof -
  from assms obtain b w where
    b: "memcpy (buf (biases L)) 0 p idx (size2 (biases L)) = Inr b" and
    w: "memcpy (buf (synaptic_weights L)) 0 p (size2 (biases L) + idx) (size2 (synaptic_weights L)) = Inr w" and
    L': "L' = L\<lparr>biases := (biases L)\<lparr>buf := b\<rparr>, synaptic_weights := (synaptic_weights L)\<lparr>buf := w\<rparr>\<rparr>"
    by (rule set_parameters_Inr)
  show "d0 (biases L') = d0 (biases L) \<and> d1 (biases L') = d1 (biases L) \<and>
         d0 (synaptic_weights L') = d0 (synaptic_weights L) \<and>
         d1 (synaptic_weights L') = d1 (synaptic_weights L)"
    by (simp add: L')
  show "at_lin (biases L') j = p ! (idx + j)" if "j < size2 (biases L)"
    using memcpy_copied [OF b that] by (simp add: L' at_lin_def)
  show "at2 (synaptic_weights L') i k = p ! (idx + size2 (biases L) + (i + k * d0 (synaptic_weights L)))"
    if i: "i < d0 (synaptic_weights L)" and k: "k < d1 (synaptic_weights L)"
  proof -
    have "i + k * d0 (synaptic_weights L) < size2 (synaptic_weights L)"
      unfolding size2_def by (rule colmajor_less [OF i k])
    from memcpy_copied [OF w this] show ?thesis
      by (simp add: L' at2_def add.commute add.left_commute)
  qed
qed

lemma insert_gradient_layout:
  assumes "insert_gradient bp idx g L = Inr g'"
  shows "j < size2 (biases L) \<Longrightarrow> g' ! (idx + j) = biases_derivatives bp ! j"
    and "d0 (synaptic_weights_derivatives bp) = d0 (synaptic_weights L) \<Longrightarrow>
         i < d0 (synaptic_weights L) \<Longrightarrow> k < d1 (synaptic_weights L) \<Longrightarrow>
         g' ! (idx + size2 (biases L) + (i + k * d0 (synaptic_weights L)))
           = at2 (synaptic_weights_derivatives bp) i k"
proof -
  from assms obtain g1 where
    g1: "memcpy g idx (biases_derivatives bp) 0 (size2 (biases L)) = Inr g1" and
    g2: "memcpy g1 (idx + size2 (biases L)) (buf (synaptic_weights_derivatives bp)) 0
           (size2 (synaptic_weights L)) = Inr g'"
    by (auto simp: insert_gradient_def Let_def bindE_Inr get_biases_number_def
        get_synaptic_weights_number_def)
  show "g' ! (idx + j) = biases_derivatives bp ! j" if j: "j < size2 (biases L)"
  proof -
    have "g' ! (idx + j) = g1 ! (idx + j)"
      using j by (intro memcpy_before [OF g2]) simp
    also have "\<dots> = biases_derivatives bp ! j"
      using memcpy_copied [OF g1 j] by simp
    finally show ?thesis .
  qed
  show "g' ! (idx + size2 (biases L) + (i + k * d0 (synaptic_weights L)))
           = at2 (synaptic_weights_derivatives bp) i k"
    if d: "d0 (synaptic_weights_derivatives bp) = d0 (synaptic_weights L)"
      and i: "i < d0 (synaptic_weights L)" and k: "k < d1 (synaptic_weights L)"
  proof -
    have "i + k * d0 (synaptic_weights L) < size2 (synaptic_weights L)"
      unfolding size2_def by (rule colmajor_less [OF i k])
    from memcpy_copied [OF g2 this] show ?thesis
      by (simp add: at2_def d)
  qed
qed

lemma potential_layout:
  shows "potential_biases L p = Inr pb \<Longrightarrow> j < get_neurons_number L \<Longrightarrow> at_lin pb j = p ! j"
    and "potential_synaptic_weights L p = Inr pw \<Longrightarrow>
         d0 pw = get_inputs_number L \<and> d1 pw = get_neurons_number L"
    and "potential_synaptic_weights L p = Inr pw \<Longrightarrow>
         i < get_inputs_number L \<Longrightarrow> k < get_neurons_number L \<Longrightarrow>
         at2 pw i k = p ! (get_neurons_number L + (i + k * get_inputs_number L))"
proof -
  show "potential_biases L p = Inr pb \<Longrightarrow> j < get_neurons_number L \<Longrightarrow> at_lin pb j = p ! j"
    by (auto simp: potential_biases_def tensor_map_def at_lin_def split: if_splits)
  show "potential_synaptic_weights L p = Inr pw \<Longrightarrow>
         d0 pw = get_inputs_number L \<and> d1 pw = get_neurons_number L"
    by (auto simp: potential_synaptic_weights_def tensor_map_def split: if_splits)
  show "at2 pw i k = p ! (get_neurons_number L + (i + k * get_inputs_number L))"
    if pw: "potential_synaptic_weights L p = Inr pw"
      and i: "i < get_inputs_number L" and k: "k < get_neurons_number L"
  proof -
    have lt: "i + k * get_inputs_number L < get_inputs_number L * get_neurons_number L"
      by (rule colmajor_less [OF i k])
    have le: "get_neurons_number L + get_inputs_number L * get_neurons_number L \<le> length p"
      using pw by (auto simp: potential_synaptic_weights_def tensor_map_def split: if_splits)
    have "pw = \<lparr>d0 = get_inputs_number L, d1 = get_neurons_number L,
                buf = take (get_inputs_number L * get_neurons_number L) (drop (get_neurons_number L) p)\<rparr>"
      using pw by (auto simp: potential_synaptic_weights_def tensor_map_def split: if_splits)
    then show ?thesis using lt le by (simp add: at2_def)
  qed
qed



lemma calculate_combinations_cong:
  assumes "get_inputs_number L = get_inputs_number L'"
    and "get_neurons_number L = get_neurons_number L'"
    and "buf b = buf b'"
  shows "calculate_combinations A debug L inputs b w c
           = calculate_combinations A debug L' inputs b' w c"
  using assms
  by (simp add: calculate_combinations_def get_biases_number_def get_neurons_number_def at_lin_def
      Let_def cong: if_cong)

lemma calculate_activations_derivatives_cong:
  assumes "get_neurons_number L = get_neurons_number L'"
    and "activation_function L = activation_function L'"
  shows "calculate_activations_derivatives debug fns L c a d
           = calculate_activations_derivatives debug fns L' c a d"
  using assms by (simp add: calculate_activations_derivatives_def)

lemma forward_propagate_potential_eq:
  assumes wf: "wf_layer L"
    and inv: "d1 (synaptic_weights L) = get_neurons_number L"
    and sp: "set_parameters p 0 L = Inr L'"
    and dbg: "debug \<longrightarrow> length p = get_parameters_number L"
  shows "forward_propagate_potential A debug fns inputs p fp L
           = forward_propagate A debug fns inputs fp L'"
proof -
  let ?n = "get_neurons_number L" and ?m = "get_inputs_number L"
  from sp obtain b w where
    b: "memcpy (buf (biases L)) 0 p 0 (size2 (biases L)) = Inr b" and
    w: "memcpy (buf (synaptic_weights L)) 0 p (size2 (biases L) + 0) (size2 (synaptic_weights L)) = Inr w" and
    L': "L' = L\<lparr>biases := (biases L)\<lparr>buf := b\<rparr>, synaptic_weights := (synaptic_weights L)\<lparr>buf := w\<rparr>\<rparr>"
    by (rule set_parameters_Inr)
  have lb: "length (buf (biases L)) = ?n" and lw: "length (buf (synaptic_weights L)) = ?m * ?n"
    using wf inv by (simp_all add: wf_layer_def wf2_def size2_def get_neurons_number_def
        get_inputs_number_def)
  have sw: "size2 (synaptic_weights L) = ?m * ?n"
    using inv by (simp add: size2_def get_inputs_number_def)
  have bnd: "?n + ?m * ?n \<le> length p"
    using memcpy_bounds [OF w] sw by (simp add: get_neurons_number_def)
  have b_eq: "b = take ?n p"
    using b lb bnd by (auto simp: memcpy_def get_neurons_number_def split: if_splits)
  have w_eq: "w = take (?m * ?n) (drop ?n p)"
    using w lw bnd sw by (auto simp: memcpy_def get_neurons_number_def split: if_splits)
  obtain pbv where pb: "potential_biases L p = Inr pbv" and pbv: "buf pbv = take ?n p"
    using bnd by (simp add: potential_biases_def tensor_map_def)
  have pw: "potential_synaptic_weights L p = Inr (synaptic_weights L')"
    using bnd inv by (simp add: potential_synaptic_weights_def tensor_map_def L' w_eq
        get_inputs_number_def)
  have g: "get_inputs_number L' = ?m" "get_neurons_number L' = ?n"
    "activation_function L' = activation_function L"
    by (simp_all add: L' get_inputs_number_def get_neurons_number_def size2_def)
  have cc: "calculate_combinations A debug L inputs pbv (synaptic_weights L') c
            = calculate_combinations A debug L' inputs (biases L') (synaptic_weights L') c" for c
  proof (rule calculate_combinations_cong)
    show "get_inputs_number L = get_inputs_number L'" by (simp add: g)
    show "get_neurons_number L = get_neurons_number L'" by (simp add: g)
    show "buf pbv = buf (biases L')" by (simp add: L' b_eq pbv)
  qed
  have ca: "calculate_activations_derivatives debug fns L c a d
            = calculate_activations_derivatives debug fns L' c a d" for c a d
    by (rule calculate_activations_derivatives_cong) (simp_all add: g)
  have pre: "(if debug
              then bindE (check_columns_number inputs ?m) (\<lambda>_. check_size p (get_parameters_number L))
              else Inr ())
             = (if debug then check_columns_number inputs (get_inputs_number L') else Inr ())"
    using dbg by (cases "check_columns_number inputs ?m") (simp_all add: check_size_def bindE_def g)
  show ?thesis
    unfolding forward_propagate_potential_def forward_propagate_def pre
    by (simp add: pb pw cc ca)
qed

text \<open>
  C2.  The flat parameter vector is laid out as all biases first and then all synaptic
  weights column by column (input index fastest within the column of a neuron): as
  \<^verbatim>\<open>get_parameters\<close> writes it, as \<^verbatim>\<open>set_parameters\<close> reads it from the given index,
  as \<^verbatim>\<open>insert_gradient\<close> writes the gradient from the given index, and as
  \<^verbatim>\<open>forward_propagate\<close> with a candidate vector views it.  For a layer whose weight
  matrix has one column per neuron, forward propagation with a candidate vector is
  forward propagation of the layer that \<^verbatim>\<open>set_parameters\<close> makes from that vector.
\<close>

theorem parameters_layout:
  "(wf_layer L \<longrightarrow>
      layout (get_parameters mem L) 0 (size2 (biases L))
        (d0 (synaptic_weights L)) (d1 (synaptic_weights L))
        (at_lin (biases L)) (at2 (synaptic_weights L)))
   \<and> (set_parameters p idx L = Inr L' \<longrightarrow>
      layout p idx (size2 (biases L)) (d0 (synaptic_weights L)) (d1 (synaptic_weights L))
        (at_lin (biases L')) (at2 (synaptic_weights L')))
   \<and> (insert_gradient bp idx g L = Inr g' \<and>
        d0 (synaptic_weights_derivatives bp) = d0 (synaptic_weights L) \<longrightarrow>
      layout g' idx (size2 (biases L)) (d0 (synaptic_weights L)) (d1 (synaptic_weights L))
        (\<lambda>j. biases_derivatives bp ! j) (at2 (synaptic_weights_derivatives bp)))
   \<and> (potential_biases L q = Inr pb \<and> potential_synaptic_weights L q = Inr pw \<longrightarrow>
      layout q 0 (get_neurons_number L) (get_inputs_number L) (get_neurons_number L)
        (at_lin pb) (at2 pw))
   \<and> (wf_layer L \<and> d1 (synaptic_weights L) = get_neurons_number L \<and>
        set_parameters q 0 L = Inr L'' \<and> (debug \<longrightarrow> length q = get_parameters_number L) \<longrightarrow>
      forward_propagate_potential A debug fns inputs q fp L
        = forward_propagate A debug fns inputs fp L'')"
proof -
  have 1: "wf_layer L \<Longrightarrow>
      layout (get_parameters mem L) 0 (size2 (biases L))
        (d0 (synaptic_weights L)) (d1 (synaptic_weights L))
        (at_lin (biases L)) (at2 (synaptic_weights L))"
    unfolding layout_def using get_parameters_layout [of L] by simp
  have 2: "set_parameters p idx L = Inr L' \<Longrightarrow>
      layout p idx (size2 (biases L)) (d0 (synaptic_weights L)) (d1 (synaptic_weights L))
        (at_lin (biases L')) (at2 (synaptic_weights L'))"
    unfolding layout_def using set_parameters_layout [of p idx L L'] by simp
  have 3: "insert_gradient bp idx g L = Inr g' \<Longrightarrow>
        d0 (synaptic_weights_derivatives bp) = d0 (synaptic_weights L) \<Longrightarrow>
      layout g' idx (size2 (biases L)) (d0 (synaptic_weights L)) (d1 (synaptic_weights L))
        (\<lambda>j. biases_derivatives bp ! j) (at2 (synaptic_weights_derivatives bp))"
    unfolding layout_def using insert_gradient_layout [of bp idx g L g'] by simp
  have 4: "potential_biases L q = Inr pb \<Longrightarrow> potential_synaptic_weights L q = Inr pw \<Longrightarrow>
      layout q 0 (get_neurons_number L) (get_inputs_number L) (get_neurons_number L)
        (at_lin pb) (at2 pw)"
    unfolding layout_def using potential_layout [of L q] by simp
  have 5: "wf_layer L \<Longrightarrow> d1 (synaptic_weights L) = get_neurons_number L \<Longrightarrow>
        set_parameters q 0 L = Inr L'' \<Longrightarrow> (debug \<longrightarrow> length q = get_parameters_number L) \<Longrightarrow>
      forward_propagate_potential A debug fns inputs q fp L
        = forward_propagate A debug fns inputs fp L''"
    by (rule forward_propagate_potential_eq)
  show ?thesis using 1 2 3 4 5 by blast
qed








theorem parameters_layout_witness:
  "layout (get_parameters (\<lambda>_. 0) example_layer) 0 2 3 2
     (at_lin (biases example_layer)) (at2 (synaptic_weights example_layer))
   \<and> set_parameters example_parameters 0 example_layer = Inr example_layer_set
   \<and> layout example_parameters 0 2 3 2
     (at_lin (biases example_layer_set)) (at2 (synaptic_weights example_layer_set))
   \<and> insert_gradient example_back_propagation 0 [0, 0, 0, 0, 0, 0, 0, 0] example_layer
       = Inr [21, 22, 31, 32, 33, 34, 35, 36]
   \<and> layout [21, 22, 31, 32, 33, 34, 35, 36] 0 2 3 2
     (\<lambda>j. biases_derivatives example_back_propagation ! j)
     (at2 (synaptic_weights_derivatives example_back_propagation))
   \<and> layout example_parameters 0 2 3 2
     (at_lin \<lparr>d0 = 2, d1 = 1, buf = [7, 8]\<rparr>) (at2 \<lparr>d0 = 3, d1 = 2, buf = [11, 12, 13, 14, 15, 16]\<rparr>)
   \<and> forward_propagate_potential example_arithmetic True example_linear
       \<lparr>d0 = 1, d1 = 3, buf = [1, 0, 2]\<rparr>
       example_parameters example_forward_propagation example_layer
     = forward_propagate example_arithmetic True example_linear \<lparr>d0 = 1, d1 = 3, buf = [1, 0, 2]\<rparr>
         example_forward_propagation example_layer_set"
proof -
  have w: "wf_layer example_layer"
    by (simp add: wf_layer_def wf2_def example_layer_def)
  have sz: "size2 (biases example_layer) = 2" "d0 (synaptic_weights example_layer) = 3"
    "d1 (synaptic_weights example_layer) = 2" "get_neurons_number example_layer = 2"
    "get_inputs_number example_layer = 3" "get_parameters_number example_layer = 8"
    by (simp_all add: example_layer_def size2_def get_neurons_number_def get_inputs_number_def
        get_parameters_number_def)
  have sp: "set_parameters example_parameters 0 example_layer = Inr example_layer_set"
    by (simp add: set_parameters_def Let_def memcpy_def example_layer_def example_parameters_def
        example_layer_set_def get_biases_number_def get_synaptic_weights_number_def size2_def)
  have ig: "insert_gradient example_back_propagation 0 [0, 0, 0, 0, 0, 0, 0, 0] example_layer
       = Inr [21, 22, 31, 32, 33, 34, 35, 36]"
    by (simp add: insert_gradient_def Let_def memcpy_def example_layer_def
        example_back_propagation_def get_biases_number_def get_synaptic_weights_number_def
        size2_def)
  have dd: "d0 (synaptic_weights_derivatives example_back_propagation)
              = d0 (synaptic_weights example_layer)"
    by (simp add: example_back_propagation_def example_layer_def)
  have pb: "potential_biases example_layer example_parameters = Inr \<lparr>d0 = 2, d1 = 1, buf = [7, 8]\<rparr>"
    by (simp add: potential_biases_def tensor_map_def sz example_parameters_def)
  have pw: "potential_synaptic_weights example_layer example_parameters
              = Inr \<lparr>d0 = 3, d1 = 2, buf = [11, 12, 13, 14, 15, 16]\<rparr>"
    by (simp add: potential_synaptic_weights_def tensor_map_def sz example_parameters_def)
  have len: "True \<longrightarrow> length example_parameters = get_parameters_number example_layer"
    by (simp add: sz example_parameters_def)
  show ?thesis
    using parameters_layout [where L = example_layer and mem = "\<lambda>_. 0"
        and p = example_parameters and idx = 0 and L' = example_layer_set
        and bp = example_back_propagation and g = "[0, 0, 0, 0, 0, 0, 0, 0]"
        and g' = "[21, 22, 31, 32, 33, 34, 35, 36]" and q = example_parameters
        and pb = "\<lparr>d0 = 2, d1 = 1, buf = [7, 8]\<rparr>"
        and pw = "\<lparr>d0 = 3, d1 = 2, buf = [11, 12, 13, 14, 15, 16]\<rparr>"
        and L'' = example_layer_set and debug = True and fns = example_linear
        and A = example_arithmetic
        and inputs = "\<lparr>d0 = 1, d1 = 3, buf = [1, 0, 2]\<rparr>" and fp = example_forward_propagation]
      w sp ig dd pb pw len
    by (simp add: sz)
qed

section \<open>The arithmetic of the examples\<close>












section \<open>Deltas and gradients\<close>

lemma tabulate2_dims [simp]: "d0 (tabulate2 r c f) = r" "d1 (tabulate2 r c f) = c"
  by (simp_all add: tabulate2_def)













section \<open>Combinations\<close>







section \<open>Delta through a softmax layer\<close>




lemma jacobian_block_single_sample:
  "e0 t = 1 \<Longrightarrow> e1 t = n \<Longrightarrow> jacobian_block t n 0 j k = at3 t 0 j k"
  by (simp add: jacobian_block_def at3_def mult.commute)






section \<open>The degenerate inverse Hessian update\<close>

text \<open>
  C6.  For the DFP and for the BFGS update: if the inner product of the parameters
  difference and the gradient difference is numerically zero, or one of the two
  differences is the zero vector, the resulting inverse Hessian approximation is the
  identity matrix; each of its entries is the number 0 or 1, so none is NaN.
\<close>

theorem degenerate_update_identity:
  assumes "\<bar>dot (parameters_difference optimization_data) (gradient_difference optimization_data)\<bar>
             \<le> numeric_limits_min
           \<or> (\<forall>x\<in>set (parameters_difference optimization_data). x = 0)
           \<or> (\<forall>x\<in>set (gradient_difference optimization_data). x = 0)"
  shows "inverse_hessian (calculate_inverse_hessian_approximation numeric_limits_min m optimization_data)
           = identity_matrix (d0 (inverse_hessian optimization_data)) (d1 (inverse_hessian optimization_data))
         \<and> (\<forall>i<d0 (inverse_hessian optimization_data). \<forall>j<d1 (inverse_hessian optimization_data).
               at2 (inverse_hessian
                     (calculate_inverse_hessian_approximation numeric_limits_min m optimization_data)) i j
                 = (if i = j then 1 else 0))"
proof -
  have g: "degenerate_update numeric_limits_min (parameters_difference optimization_data)
             (gradient_difference optimization_data)"
    using assms by (auto simp: degenerate_update_def list_all_iff)
  then have "inverse_hessian (calculate_inverse_hessian_approximation numeric_limits_min m optimization_data)
           = identity_matrix (d0 (inverse_hessian optimization_data)) (d1 (inverse_hessian optimization_data))"
    by (simp add: calculate_inverse_hessian_approximation_def)
  then show ?thesis by (simp add: identity_matrix_def tabulate2_at)
qed

theorem degenerate_update_identity_witness:
  "parameters_difference example_optimization_data = [0, 0]
   \<and> inverse_hessian (calculate_inverse_hessian_approximation (1 / 1000000) DFP example_optimization_data)
       = \<lparr>d0 = 2, d1 = 2, buf = [1, 0, 0, 1]\<rparr>
   \<and> inverse_hessian (calculate_inverse_hessian_approximation (1 / 1000000) BFGS example_optimization_data)
       = \<lparr>d0 = 2, d1 = 2, buf = [1, 0, 0, 1]\<rparr>"
proof -
  have z: "\<forall>x\<in>set (parameters_difference example_optimization_data). x = 0"
    by (simp add: example_optimization_data_def)
  have d: "d0 (inverse_hessian example_optimization_data) = 2"
    "d1 (inverse_hessian example_optimization_data) = 2"
    by (simp_all add: example_optimization_data_def)
  have i: "identity_matrix 2 2 = \<lparr>d0 = 2, d1 = 2, buf = [1, 0, 0, 1]\<rparr>"
  proof -
    have "[0..<4] = [0, 1, 2, 3 :: nat]" by (simp add: upt_rec)
    then show ?thesis by (simp add: identity_matrix_def tabulate2_def)
  qed
  have p: "parameters_difference example_optimization_data = [0, 0]"
    by (simp add: example_optimization_data_def)
  show ?thesis
    using z p degenerate_update_identity [of example_optimization_data "1 / 1000000" DFP]
      degenerate_update_identity [of example_optimization_data "1 / 1000000" BFGS]
    by (simp add: d i)
qed

end
